theory Spec2Isabelle
  imports Complex_Main
begin

section \<open>JavaScript values\<close>

text \<open>
  Both handlers work on values produced by the runtime's JSON parser and on the
  results of property reads, so the value type has the six JSON shapes plus
  \<open>undefined\<close> (the result of reading a property that is not there).
  Strings are byte lists holding the UTF-8 encoding of the source's literals.
  An object is the list of its own properties; a property read takes the first
  binding of the name.
\<close>

datatype jsval =
    JUndefined
  | JNull
  | JBool bool
  | JNum rat
  | JStr string
  | JArr "jsval list"
  | JObj "(string \<times> jsval) list"

text \<open>
  Exceptions of the runtime. The message text of a \<open>TypeError\<close> is chosen by
  the engine; the model carries a short description of the failing operation in
  its place, and likewise for a \<open>RangeError\<close>. A \<open>SyntaxError\<close> carries
  the parser's message and a \<open>NetworkError\<close> the message of the rejected
  \<open>fetch\<close>.
\<close>

datatype exn = TypeError string | SyntaxError string | NetworkError string | RangeError string

fun message_of :: "exn \<Rightarrow> string" where
  "message_of (TypeError m) = m"
| "message_of (SyntaxError m) = m"
| "message_of (NetworkError m) = m"
| "message_of (RangeError m) = m"

text \<open>Truthiness: what \<open>!v\<close>, \<open>v && _\<close>, \<open>v || _\<close> and \<open>if (v)\<close> test.\<close>

fun truthy :: "jsval \<Rightarrow> bool" where
  "truthy JUndefined = False"
| "truthy JNull = False"
| "truthy (JBool b) = b"
| "truthy (JNum n) = (n \<noteq> 0)"
| "truthy (JStr s) = (s \<noteq> [])"
| "truthy (JArr xs) = True"
| "truthy (JObj kvs) = True"

fun nullish :: "jsval \<Rightarrow> bool" where
  "nullish JUndefined = True"
| "nullish JNull = True"
| "nullish v = False"

text \<open>\<open>typeof v === 'string'\<close> and \<open>Array.isArray(v)\<close>.\<close>

fun is_string :: "jsval \<Rightarrow> bool" where
  "is_string (JStr s) = True"
| "is_string v = False"

fun isArray :: "jsval \<Rightarrow> bool" where
  "isArray (JArr xs) = True"
| "isArray v = False"

text \<open>
  Reading one of the names the handlers use (\<open>message\<close>, \<open>history\<close>,
  \<open>systemPrompt\<close>, \<open>role\<close>, \<open>parts\<close>, \<open>candidates\<close>, \<open>content\<close>,
  \<open>text\<close>, \<open>finishReason\<close>) from a value that is neither \<open>null\<close> nor
  \<open>undefined\<close>: an object gives the bound value or \<open>undefined\<close>; a number, a
  boolean, a string or an array has no property of any of these names.
\<close>

fun own_prop :: "jsval \<Rightarrow> string \<Rightarrow> jsval" where
  "own_prop (JObj kvs) k = (case map_of kvs k of None \<Rightarrow> JUndefined | Some v \<Rightarrow> v)"
| "own_prop v k = JUndefined"

text \<open>\<open>v.k\<close>: throws on \<open>null\<close> and \<open>undefined\<close>.\<close>

definition get_prop :: "jsval \<Rightarrow> string \<Rightarrow> exn + jsval" where
  "get_prop v k =
     (if nullish v then Inl (TypeError (''Cannot read property '' @ k))
      else Inr (own_prop v k))"

text \<open>\<open>v?.k\<close>: \<open>undefined\<close> on \<open>null\<close> and \<open>undefined\<close>.\<close>

definition opt_prop :: "jsval \<Rightarrow> string \<Rightarrow> jsval" where
  "opt_prop v k = (if nullish v then JUndefined else own_prop v k)"

text \<open>
  \<open>v?.[0]\<close>: the first element of an array, the first character of a string
  (here its first byte), the property \<open>"0"\<close> of an object, otherwise
  \<open>undefined\<close>.
\<close>

fun opt_index0 :: "jsval \<Rightarrow> jsval" where
  "opt_index0 (JArr xs) = (case xs of [] \<Rightarrow> JUndefined | x # _ \<Rightarrow> x)"
| "opt_index0 (JStr s) = (case s of [] \<Rightarrow> JUndefined | c # _ \<Rightarrow> JStr [c])"
| "opt_index0 (JObj kvs) = own_prop (JObj kvs) ''0''"
| "opt_index0 v = JUndefined"

text \<open>\<open>xs.slice(-n)\<close> on an array: its last \<open>n\<close> elements, all of them when it is shorter.\<close>

definition slice_last :: "nat \<Rightarrow> 'a list \<Rightarrow> 'a list" where
  "slice_last n xs = drop (length xs - n) xs"

section \<open>HTTP data\<close>

text \<open>
  An inbound request is its method and the text of its body. The environment
  holds the one secret binding; \<open>None\<close> is an unset binding (\<open>undefined\<close>).
\<close>

record request =
  req_method :: string
  body_text :: string

record env =
  API_KEY_caffine :: "string option"

text \<open>
  A response body is absent (\<open>new Response(null, ...)\<close>), a plain text, or
  \<open>JSON.stringify\<close> of a value; the value is kept, not its serialisation.
\<close>

datatype payload = NoBody | TextBody string | JsonBody jsval

record response =
  status :: nat
  headers :: "(string \<times> string) list"
  body :: payload

text \<open>
  \<open>new Response(body, { status, headers })\<close> is not total: it throws a
  \<open>RangeError\<close> for a status outside 200 to 599, and a \<open>TypeError\<close> when a
  body is given together with a null body status (101, 103, 204, 205, 304).
\<close>

definition null_body_status :: "nat \<Rightarrow> bool" where
  "null_body_status st = (st = 101 \<or> st = 103 \<or> st = 204 \<or> st = 205 \<or> st = 304)"

definition new_Response :: "payload \<Rightarrow> nat \<Rightarrow> (string \<times> string) list \<Rightarrow> exn + response" where
  "new_Response b st hs =
     (if st < 200 \<or> 599 < st then Inl (RangeError ''status out of range'')
      else if b \<noteq> NoBody \<and> null_body_status st
      then Inl (TypeError ''null body status with a body'')
      else Inr \<lparr>status = st, headers = hs, body = b\<rparr>)"

text \<open>
  The outbound \<open>fetch\<close>: its URL, its options, and the value whose
  serialisation is sent. Its result is a rejection with the error's message or a
  response with a status and a body text.
\<close>

record outbound =
  url :: string
  out_method :: string
  out_headers :: "(string \<times> string) list"
  out_body :: jsval

datatype fetch_result = Rejected string | Resolved nat string

text \<open>\<open>response.ok\<close>: the status is in the range 200 to 299.\<close>

definition ok :: "nat \<Rightarrow> bool" where
  "ok st = (200 \<le> st \<and> st \<le> 299)"

text \<open>
  The runtime's JSON parser (\<open>JSON.parse\<close>, \<open>request.json()\<close>,
  \<open>response.json()\<close>) is a parameter \<open>P\<close> of the handlers: \<open>Inl\<close> is the
  message of the \<open>SyntaxError\<close> it throws. For running the handlers on
  concrete inputs, \<open>JSON_parse_on\<close> is the parser restricted to a finite table
  of texts with their parsed values.
\<close>

definition JSON_parse_on :: "(string \<times> jsval) list \<Rightarrow> string \<Rightarrow> string + jsval" where
  "JSON_parse_on table s =
     (case map_of table s of None \<Rightarrow> Inl ''Unexpected token'' | Some v \<Rightarrow> Inr v)"

text \<open>The two non-ASCII characters of the source's literals, in UTF-8.\<close>

definition hot_beverage :: string where
  "hot_beverage = [CHR 0xE2, CHR 0x98, CHR 0x95]"

definition em_dash :: string where
  "em_dash = [CHR 0xE2, CHR 0x80, CHR 0x94]"

section \<open>Shared shapes of both handlers\<close>

text \<open>
  \<open>const { message, history = [], systemPrompt = '' } = body\<close>: destructuring
  \<open>null\<close> throws; a default replaces \<open>undefined\<close> only.
\<close>

definition default_to :: "jsval \<Rightarrow> jsval \<Rightarrow> jsval" where
  "default_to v d = (if v = JUndefined then d else v)"

definition destructure :: "jsval \<Rightarrow> exn + (jsval \<times> jsval \<times> jsval)" where
  "destructure b =
     (if nullish b then Inl (TypeError ''Cannot destructure property message'')
      else Inr (own_prop b ''message'',
                default_to (own_prop b ''history'') (JArr []),
                default_to (own_prop b ''systemPrompt'') (JStr [])))"

text \<open>\<open>{ role: r, parts: p }\<close> and \<open>{ role: r, parts: [{ text: t }] }\<close>.\<close>

definition turn :: "jsval \<Rightarrow> jsval \<Rightarrow> jsval" where
  "turn r p = JObj [(''role'', r), (''parts'', p)]"

definition text_turn :: "string \<Rightarrow> jsval \<Rightarrow> jsval" where
  "text_turn r t = turn (JStr r) (JArr [JObj [(''text'', t)]])"

definition generationConfig :: jsval where
  "generationConfig =
     JObj [(''temperature'', JNum (7 / 10)), (''topK'', JNum 40),
           (''topP'', JNum (95 / 100)), (''maxOutputTokens'', JNum 512)]"

definition api_url :: "string \<Rightarrow> string" where
  "api_url key =
     ''https://generativelanguage.googleapis.com/v1beta/models/'' @ ''gemma-3-27b-it''
       @ '':generateContent?key='' @ key"

section \<open>The Pages Function (functions/api/chat.js)\<close>

definition corsHeaders :: "(string \<times> string) list" where
  "corsHeaders =
     [(''Access-Control-Allow-Origin'', ''*''),
      (''Access-Control-Allow-Methods'', ''POST, OPTIONS''),
      (''Access-Control-Allow-Headers'', ''Content-Type''),
      (''Content-Type'', ''application/json'')]"

text \<open>\<open>new Response(JSON.stringify(v), { status: st, headers: corsHeaders })\<close>.\<close>

definition json_response :: "jsval \<Rightarrow> nat \<Rightarrow> exn + response" where
  "json_response v st = new_Response (JsonBody v) st corsHeaders"

definition pages_ack :: string where
  \<open>pages_ack =
     ''Understood! I'' @ [CHR 0x27] @ ''m ready to assist as the Caffeine Machine AI barista. ''
       @ hot_beverage\<close>

text \<open>
  The loop over \<open>trimmedHistory\<close>, with \<open>contents\<close> as the accumulator:
  \<open>if (turn.role && Array.isArray(turn.parts)) contents.push({ role: turn.role, parts: turn.parts })\<close>.
  Reading \<open>turn.role\<close> throws when the entry is \<open>null\<close>; nothing in the handler
  catches it.
\<close>

fun pages_history_loop :: "jsval list \<Rightarrow> jsval list \<Rightarrow> exn + jsval list" where
  "pages_history_loop [] contents = Inr contents"
| "pages_history_loop (t # ts) contents =
     (case get_prop t ''role'' of
        Inl e \<Rightarrow> Inl e
      | Inr role \<Rightarrow>
          if truthy role then
            (case get_prop t ''parts'' of
               Inl e \<Rightarrow> Inl e
             | Inr parts \<Rightarrow>
                 if isArray parts then pages_history_loop ts (contents @ [turn role parts])
                 else pages_history_loop ts contents)
          else pages_history_loop ts contents)"

text \<open>Lines 44 to 63: the persona pair, the history, the current message.\<close>

definition pages_contents :: "jsval \<Rightarrow> jsval \<Rightarrow> jsval \<Rightarrow> exn + jsval list" where
  "pages_contents message history systemPrompt =
     (let contents =
            (if truthy systemPrompt
             then [text_turn ''user'' systemPrompt, text_turn ''model'' (JStr pages_ack)]
             else [])
      in case (case history of
                 JArr h \<Rightarrow> pages_history_loop (slice_last 10 h) contents
               | _ \<Rightarrow> Inr contents) of
           Inl e \<Rightarrow> Inl e
         | Inr contents' \<Rightarrow> Inr (contents' @ [text_turn ''user'' message]))"

definition safetySettings :: jsval where
  "safetySettings =
     JArr [JObj [(''category'', JStr ''HARM_CATEGORY_HARASSMENT''),
                 (''threshold'', JStr ''BLOCK_MEDIUM_AND_ABOVE'')],
           JObj [(''category'', JStr ''HARM_CATEGORY_HATE_SPEECH''),
                 (''threshold'', JStr ''BLOCK_MEDIUM_AND_ABOVE'')]]"

definition pages_call :: "string \<Rightarrow> jsval list \<Rightarrow> outbound" where
  "pages_call apiKey contents =
     \<lparr>url = api_url apiKey, out_method = ''POST'',
      out_headers = [(''Content-Type'', ''application/json'')],
      out_body = JObj [(''contents'', JArr contents),
                       (''generationConfig'', generationConfig),
                       (''safetySettings'', safetySettings)]\<rparr>"

text \<open>
  Lines 23 to 67, up to the \<open>fetch\<close>: the handler throws (\<open>Inl (Inl e)\<close>),
  returns a response without calling upstream (\<open>Inl (Inr r)\<close>), or has built
  the outbound call (\<open>Inr call\<close>). Nothing here is inside a \<open>try\<close> except
  the parse of the body, so an exception of the destructuring, of the history
  loop or of \<open>new Response\<close> leaves the handler.
\<close>

definition pages_before_fetch :: "(string \<Rightarrow> string + jsval) \<Rightarrow> request \<Rightarrow> env \<Rightarrow> (exn + response) + outbound" where
  \<open>pages_before_fetch P request e =
     (case P (body_text request) of
        Inl _ \<Rightarrow> Inl (json_response (JObj [(''error'', JStr ''Invalid JSON body'')]) 400)
      | Inr b \<Rightarrow>
          (case destructure b of
             Inl x \<Rightarrow> Inl (Inl x)
           | Inr (message, history, systemPrompt) \<Rightarrow>
               if \<not> truthy message \<or> \<not> is_string message then
                 Inl (json_response
                   (JObj [(''error'', JStr ''Missing or invalid "message" field'')]) 400)
               else
                 (case API_KEY_caffine e of
                    None \<Rightarrow> Inl (json_response (JObj [(''error'',
                      JStr ''Server configuration error: missing API key (API_KEY_caffine)'')]) 500)
                  | Some apiKey \<Rightarrow>
                      if apiKey = [] then Inl (json_response (JObj [(''error'',
                        JStr ''Server configuration error: missing API key (API_KEY_caffine)'')]) 500)
                      else
                        (case pages_contents message history systemPrompt of
                           Inl x \<Rightarrow> Inl (Inl x)
                         | Inr contents \<Rightarrow> Inr (pages_call apiKey contents)))))\<close>

text \<open>Lines 108 and 109: the optional chains that pick the candidate and the reply.\<close>

definition candidate_of :: "jsval \<Rightarrow> jsval" where
  "candidate_of geminiData = opt_index0 (opt_prop geminiData ''candidates'')"

definition reply_of :: "jsval \<Rightarrow> jsval" where
  "reply_of candidate =
     opt_prop (opt_index0 (opt_prop (opt_prop candidate ''content'') ''parts'')) ''text''"

text \<open>
  Lines 88 to 117: what the handler returns for each result of the \<open>fetch\<close>.
  On line 97 the status given to \<open>new Response\<close> is the upstream status, with
  a body, so the constructor can throw there.
\<close>

definition pages_after_fetch :: "(string \<Rightarrow> string + jsval) \<Rightarrow> fetch_result \<Rightarrow> exn + response" where
  "pages_after_fetch P r =
     (case r of
        Rejected msg \<Rightarrow>
          json_response (JObj [(''error'', JStr ''Failed to reach Gemini API''),
                               (''details'', JStr msg)]) 502
      | Resolved st errText \<Rightarrow>
          if \<not> ok st then
            (let errJson = (case P errText of
                              Inl _ \<Rightarrow> JObj [(''raw'', JStr errText)]
                            | Inr v \<Rightarrow> v)
             in json_response (JObj [(''error'', JStr ''Gemini API error''),
                                     (''status'', JNum (of_nat st)),
                                     (''details'', errJson)]) st)
          else
            (case P errText of
               Inl _ \<Rightarrow> json_response (JObj [(''error'', JStr ''Failed to parse Gemini response'')]) 502
             | Inr geminiData \<Rightarrow>
                 (let candidate = candidate_of geminiData;
                      reply = reply_of candidate
                  in if \<not> truthy reply then
                       (let fr = opt_prop candidate ''finishReason'';
                            finishReason = (if truthy fr then fr else JStr ''UNKNOWN'')
                        in json_response (JObj [(''error'', JStr ''No reply from Gemini''),
                                                (''finishReason'', finishReason)]) 502)
                     else json_response (JObj [(''reply'', reply)]) 200)))"

text \<open>
  \<open>onRequestPost\<close>: the outcome (a thrown exception or a response) and the
  outbound calls made, in order. \<open>upstream\<close> is the network: it answers the call.
\<close>

definition onRequestPost :: "(string \<Rightarrow> string + jsval) \<Rightarrow> (outbound \<Rightarrow> fetch_result) \<Rightarrow> request \<Rightarrow> env \<Rightarrow> (exn + response) \<times> outbound list" where
  "onRequestPost P upstream request e =
     (case pages_before_fetch P request e of
        Inl early \<Rightarrow> (early, [])
      | Inr call \<Rightarrow> (pages_after_fetch P (upstream call), [call]))"

text \<open>
  \<open>onRequestOptions\<close> takes no argument: the preflight answer is a constant.
  Its status 204 comes with a \<open>null\<close> body, which the constructor accepts.
\<close>

definition onRequestOptions :: response where
  "onRequestOptions =
     \<lparr>status = 204,
      headers = [(''Access-Control-Allow-Origin'', ''*''),
                 (''Access-Control-Allow-Methods'', ''POST, OPTIONS''),
                 (''Access-Control-Allow-Headers'', ''Content-Type'')],
      body = NoBody\<rparr>"

section \<open>The Worker (worker.js)\<close>

definition BARISTA_PROMPT :: string where
  \<open>BARISTA_PROMPT =
     ''You are a friendly barista at Caffeine Machine in Las Vegas. '' @ [CHR 0x0A]
       @ ''            Talk like a real person'' @ em_dash
       @ ''simple, warm, and natural. Keep it short (1-2 sentences). '' @ [CHR 0x0A]
       @ ''            Mention the "Coffee Flight" if they'' @ [CHR 0x27]
       @ ''re looking for recommendations! '' @ hot_beverage\<close>

definition worker_ack :: string where
  \<open>worker_ack =
     ''Got it! I'' @ [CHR 0x27] @ ''ll keep it simple and friendly, like a real chat. ''
       @ hot_beverage\<close>

definition worker_fallback :: string where
  \<open>worker_fallback =
     ''I'' @ [CHR 0x27] @ ''m sorry, I couldn'' @ [CHR 0x27] @ ''t brew a response right now. ''
       @ hot_beverage\<close>

definition worker_headers :: "(string \<times> string) list" where
  "worker_headers =
     [(''Content-Type'', ''application/json''), (''Access-Control-Allow-Origin'', ''*'')]"

text \<open>
  The callback of \<open>forEach\<close>, run over \<open>history.slice(-10)\<close> with \<open>contents\<close>
  as the accumulator:
  \<open>if (turn.role && turn.parts) contents.push({ role: turn.role, parts: turn.parts })\<close>.
\<close>

fun worker_history_loop :: "jsval list \<Rightarrow> jsval list \<Rightarrow> exn + jsval list" where
  "worker_history_loop [] contents = Inr contents"
| "worker_history_loop (t # ts) contents =
     (case get_prop t ''role'' of
        Inl e \<Rightarrow> Inl e
      | Inr role \<Rightarrow>
          if truthy role then
            (case get_prop t ''parts'' of
               Inl e \<Rightarrow> Inl e
             | Inr parts \<Rightarrow>
                 if truthy parts then worker_history_loop ts (contents @ [turn role parts])
                 else worker_history_loop ts contents)
          else worker_history_loop ts contents)"

text \<open>
  Lines 42 to 60. \<open>history.slice(-10).forEach\<close> is called without a test that
  \<open>history\<close> is an array: a string has \<open>slice\<close> but its result has no
  \<open>forEach\<close>, and no other JSON value has a callable \<open>slice\<close>, so every
  value but an array throws.
\<close>

definition worker_contents :: "jsval \<Rightarrow> jsval \<Rightarrow> exn + jsval list" where
  "worker_contents message history =
     (let contents = [text_turn ''user'' (JStr BARISTA_PROMPT),
                      text_turn ''model'' (JStr worker_ack)]
      in case (case history of
                 JArr h \<Rightarrow> worker_history_loop (slice_last 10 h) contents
               | _ \<Rightarrow> Inl (TypeError ''history.slice(...).forEach is not a function'')) of
           Inl e \<Rightarrow> Inl e
         | Inr contents' \<Rightarrow> Inr (contents' @ [text_turn ''user'' message]))"

definition worker_call :: "string \<Rightarrow> jsval list \<Rightarrow> outbound" where
  "worker_call API_KEY contents =
     \<lparr>url = api_url API_KEY, out_method = ''POST'',
      out_headers = [(''Content-Type'', ''application/json'')],
      out_body = JObj [(''contents'', JArr contents),
                       (''generationConfig'', generationConfig)]\<rparr>"

text \<open>
  The \<open>try\<close> block up to the \<open>fetch\<close> (lines 29 to 62): an exception for the
  \<open>catch\<close> (\<open>Inl\<close>), a response returned without calling upstream, or the
  outbound call. \<open>message\<close> is not tested and \<open>systemPrompt\<close> is not used.
\<close>

definition worker_before_fetch :: "(string \<Rightarrow> string + jsval) \<Rightarrow> request \<Rightarrow> env \<Rightarrow> exn + (response + outbound)" where
  "worker_before_fetch P request e =
     (case P (body_text request) of
        Inl m \<Rightarrow> Inl (SyntaxError m)
      | Inr b \<Rightarrow>
          (case destructure b of
             Inl x \<Rightarrow> Inl x
           | Inr (message, history, systemPrompt) \<Rightarrow>
               (case API_KEY_caffine e of
                  None \<Rightarrow> Inr (Inl \<lparr>status = 500, headers = worker_headers,
                    body = JsonBody (JObj [(''error'', JStr ''API key not configured'')])\<rparr>)
                | Some API_KEY \<Rightarrow>
                    if API_KEY = [] then Inr (Inl \<lparr>status = 500, headers = worker_headers,
                      body = JsonBody (JObj [(''error'', JStr ''API key not configured'')])\<rparr>)
                    else
                      (case worker_contents message history of
                         Inl x \<Rightarrow> Inl x
                       | Inr contents \<Rightarrow> Inr (Inr (worker_call API_KEY contents))))))"

text \<open>
  The rest of the \<open>try\<close> block (lines 64 to 86). The status of the upstream
  response is not looked at; \<open>data.candidates\<close> is a plain property read.
\<close>

definition worker_after_fetch :: "(string \<Rightarrow> string + jsval) \<Rightarrow> fetch_result \<Rightarrow> exn + response" where
  "worker_after_fetch P r =
     (case r of
        Rejected msg \<Rightarrow> Inl (NetworkError msg)
      | Resolved st txt \<Rightarrow>
          (case P txt of
             Inl m \<Rightarrow> Inl (SyntaxError m)
           | Inr data \<Rightarrow>
               (case get_prop data ''candidates'' of
                  Inl x \<Rightarrow> Inl x
                | Inr candidates \<Rightarrow>
                    (let reply = reply_of (opt_index0 candidates)
                     in Inr \<lparr>status = 200, headers = worker_headers,
                             body = JsonBody (JObj [(''reply'',
                               if truthy reply then reply else JStr worker_fallback)])\<rparr>))))"

text \<open>The \<open>catch\<close> block (lines 88 to 93).\<close>

definition worker_catch :: "exn \<Rightarrow> response" where
  "worker_catch err =
     \<lparr>status = 500, headers = worker_headers,
      body = JsonBody (JObj [(''error'', JStr (message_of err))])\<rparr>"

text \<open>
  \<open>fetch(request, env)\<close> of the Worker: the response and the outbound calls
  made. The preflight response is built without a status. The 405 response is
  built without headers. Every response of the Worker has a literal status (405,
  500) or none (200), each accepted by the constructor with the body it is
  given, so the responses are written as records.
\<close>

definition worker_fetch :: "(string \<Rightarrow> string + jsval) \<Rightarrow> (outbound \<Rightarrow> fetch_result) \<Rightarrow> request \<Rightarrow> env \<Rightarrow> response \<times> outbound list" where
  "worker_fetch P upstream request e =
     (if req_method request = ''OPTIONS'' then
        (\<lparr>status = 200,
          headers = [(''Access-Control-Allow-Origin'', ''*''),
                     (''Access-Control-Allow-Methods'', ''POST, OPTIONS''),
                     (''Access-Control-Allow-Headers'', ''Content-Type'')],
          body = NoBody\<rparr>, [])
      else if req_method request \<noteq> ''POST'' then
        (\<lparr>status = 405, headers = [], body = TextBody ''Method Not Allowed''\<rparr>, [])
      else
        (case worker_before_fetch P request e of
           Inl err \<Rightarrow> (worker_catch err, [])
         | Inr (Inl early) \<Rightarrow> (early, [])
         | Inr (Inr call) \<Rightarrow>
             (case worker_after_fetch P (upstream call) of
                Inl err \<Rightarrow> (worker_catch err, [call])
              | Inr res \<Rightarrow> (res, [call]))))"

section \<open>Notions used to state the properties\<close>

text \<open>
  The shape test of each handler on a history entry that is not \<open>null\<close>, and
  the turn that is pushed for an entry that passes: its \<open>role\<close> and its
  \<open>parts\<close>, nothing else of it.
\<close>

definition pages_shape_ok :: "jsval \<Rightarrow> bool" where
  "pages_shape_ok t = (truthy (own_prop t ''role'') \<and> isArray (own_prop t ''parts''))"

definition worker_shape_ok :: "jsval \<Rightarrow> bool" where
  "worker_shape_ok t = (truthy (own_prop t ''role'') \<and> truthy (own_prop t ''parts''))"

definition forward :: "jsval \<Rightarrow> jsval" where
  "forward t = turn (own_prop t ''role'') (own_prop t ''parts'')"

text \<open>
  A valid request body: any value but \<open>null\<close> whose \<open>message\<close> is a
  non-empty string, whose \<open>history\<close> is absent or an array without \<open>null\<close>
  entries (objects with or without \<open>role\<close> and \<open>parts\<close>, or any other
  value), and whose \<open>systemPrompt\<close> is absent or a string.
\<close>

definition no_null_entries :: "jsval list \<Rightarrow> bool" where
  "no_null_entries h = list_all (\<lambda>t. \<not> nullish t) h"

definition valid_request :: "jsval \<Rightarrow> bool" where
  "valid_request b =
     (\<not> nullish b \<and> is_string (own_prop b ''message'') \<and> truthy (own_prop b ''message'')
      \<and> (case own_prop b ''history'' of
            JUndefined \<Rightarrow> True | JArr h \<Rightarrow> no_null_entries h | _ \<Rightarrow> False)
      \<and> (case own_prop b ''systemPrompt'' of
            JUndefined \<Rightarrow> True | JStr s \<Rightarrow> True | _ \<Rightarrow> False))"

definition history_of :: "jsval \<Rightarrow> jsval list" where
  "history_of b = (case own_prop b ''history'' of JArr h \<Rightarrow> h | _ \<Rightarrow> [])"

definition persona_of :: "jsval \<Rightarrow> jsval" where
  "persona_of b = default_to (own_prop b ''systemPrompt'') (JStr [])"

section \<open>Concrete requests and answers\<close>

text \<open>
  Inputs on which the handlers are run below. Each \<open>_text\<close> constant is a
  JSON text and the constant next to it is the value it parses to; \<open>demo_parse\<close>
  is the parser on these texts, and any other text is a syntax error for it.
\<close>

definition demo_u :: jsval where
  "demo_u = JObj [(''role'', JStr ''user''), (''parts'', JArr [])]"

definition demo_m :: jsval where
  "demo_m = JObj [(''role'', JStr ''model''), (''parts'', JArr [])]"

definition demo_x :: jsval where
  "demo_x = JObj [(''role'', JStr ''user'')]"

definition demo_null_turn_text :: string where
  \<open>demo_null_turn_text = ''{"message":"Hi","systemPrompt":"You are a barista.","history":[{"role":"user","parts":[]},null,{"role":"model","parts":[]}]}''\<close>

definition demo_null_turn_body :: jsval where
  "demo_null_turn_body =
     JObj [(''message'', JStr ''Hi''), (''systemPrompt'', JStr ''You are a barista.''),
           (''history'', JArr [demo_u, JNull, demo_m])]"

definition demo_env :: env where
  "demo_env = \<lparr>API_KEY_caffine = Some ''k3y''\<rparr>"

definition demo_hi_text :: string where
  \<open>demo_hi_text = ''{"message":"Hi"}''\<close>

definition demo_hi_body :: jsval where
  "demo_hi_body = JObj [(''message'', JStr ''Hi'')]"

definition demo_null_history_text :: string where
  \<open>demo_null_history_text = ''{"message":"Hi","history":[null]}''\<close>

definition demo_null_history_body :: jsval where
  "demo_null_history_body = JObj [(''message'', JStr ''Hi''), (''history'', JArr [JNull])]"

definition demo_string_parts_text :: string where
  \<open>demo_string_parts_text = ''{"message":"Hi","history":[{"role":"user","parts":"abc"}]}''\<close>

definition demo_string_parts_body :: jsval where
  "demo_string_parts_body =
     JObj [(''message'', JStr ''Hi''),
           (''history'', JArr [JObj [(''role'', JStr ''user''), (''parts'', JStr ''abc'')]])]"

definition demo_reply_text :: string where
  \<open>demo_reply_text = ''{"candidates":[{"content":{"parts":[{"text":"Hello"}]}}]}''\<close>

definition demo_reply_data :: jsval where
  "demo_reply_data =
     JObj [(''candidates'', JArr [JObj [(''content'',
       JObj [(''parts'', JArr [JObj [(''text'', JStr ''Hello'')]])])]])]"

definition demo_quota_text :: string where
  \<open>demo_quota_text = ''{"error":{"code":429}}''\<close>

definition demo_quota_data :: jsval where
  "demo_quota_data = JObj [(''error'', JObj [(''code'', JNum 429)])]"

definition demo_safety_text :: string where
  \<open>demo_safety_text = ''{"candidates":[{"finishReason":"SAFETY"}]}''\<close>

definition demo_safety_data :: jsval where
  "demo_safety_data = JObj [(''candidates'', JArr [JObj [(''finishReason'', JStr ''SAFETY'')]])]"

definition demo_empty_reason_text :: string where
  \<open>demo_empty_reason_text = ''{"candidates":[{"finishReason":""}]}''\<close>

definition demo_empty_reason_data :: jsval where
  "demo_empty_reason_data = JObj [(''candidates'', JArr [JObj [(''finishReason'', JStr [])]])]"

definition demo_parse :: "string \<Rightarrow> string + jsval" where
  "demo_parse =
     JSON_parse_on
       [(''null'', JNull), (''{}'', JObj []),
        (demo_hi_text, demo_hi_body),
        (demo_null_history_text, demo_null_history_body),
        (demo_string_parts_text, demo_string_parts_body),
        (demo_reply_text, demo_reply_data),
        (demo_quota_text, demo_quota_data),
        (demo_safety_text, demo_safety_data),
        (demo_empty_reason_text, demo_empty_reason_data)]"

definition demo_post :: "string \<Rightarrow> request" where
  "demo_post rtext = \<lparr>req_method = ''POST'', body_text = rtext\<rparr>"

section \<open>Auxiliary facts\<close>

lemmas demo_defs = demo_parse_def JSON_parse_on_def demo_post_def demo_env_def
  demo_hi_text_def demo_hi_body_def demo_null_history_text_def demo_null_history_body_def
  demo_string_parts_text_def demo_string_parts_body_def demo_reply_text_def demo_reply_data_def
  demo_quota_text_def demo_quota_data_def demo_safety_text_def demo_safety_data_def
  demo_empty_reason_text_def demo_empty_reason_data_def

lemmas handler_defs = onRequestPost_def pages_before_fetch_def pages_after_fetch_def
  pages_contents_def destructure_def default_to_def get_prop_def opt_prop_def
  candidate_of_def reply_of_def json_response_def new_Response_def null_body_status_def
  ok_def slice_last_def
  worker_fetch_def worker_before_fetch_def worker_after_fetch_def worker_contents_def
  worker_catch_def

lemma pages_history_loop_filter:
  "no_null_entries ts \<Longrightarrow>
   pages_history_loop ts c = Inr (c @ map forward (filter pages_shape_ok ts))"
  unfolding no_null_entries_def
  by (induction ts arbitrary: c) (simp_all add: get_prop_def pages_shape_ok_def forward_def)

lemma worker_history_loop_filter:
  "no_null_entries ts \<Longrightarrow>
   worker_history_loop ts c = Inr (c @ map forward (filter worker_shape_ok ts))"
  unfolding no_null_entries_def
  by (induction ts arbitrary: c) (simp_all add: get_prop_def worker_shape_ok_def forward_def)

lemma no_null_entries_slice: "no_null_entries h \<Longrightarrow> no_null_entries (slice_last n h)"
  unfolding no_null_entries_def slice_last_def list_all_iff
  by (auto dest: in_set_dropD)

lemma length_slice_last: "length (slice_last n xs) \<le> n"
  by (simp add: slice_last_def)

lemma pages_contents_array:
  "no_null_entries (slice_last 10 h) \<Longrightarrow>
   pages_contents m (JArr h) sp =
     Inr ((if truthy sp then [text_turn ''user'' sp, text_turn ''model'' (JStr pages_ack)] else [])
          @ map forward (filter pages_shape_ok (slice_last 10 h)) @ [text_turn ''user'' m])"
  by (simp add: pages_contents_def pages_history_loop_filter)

lemma worker_contents_array:
  "no_null_entries (slice_last 10 h) \<Longrightarrow>
   worker_contents m (JArr h) =
     Inr ([text_turn ''user'' (JStr BARISTA_PROMPT), text_turn ''model'' (JStr worker_ack)]
          @ map forward (filter worker_shape_ok (slice_last 10 h)) @ [text_turn ''user'' m])"
  by (simp add: worker_contents_def worker_history_loop_filter)

lemma valid_request_destructure:
  "valid_request b \<Longrightarrow>
   destructure b = Inr (own_prop b ''message'', JArr (history_of b), persona_of b)"
  by (auto simp: valid_request_def destructure_def history_of_def persona_of_def default_to_def
           split: jsval.splits)

lemma valid_request_history: "valid_request b \<Longrightarrow> no_null_entries (slice_last 10 (history_of b))"
  by (auto simp: valid_request_def history_of_def no_null_entries_slice
           no_null_entries_def [of "[]"] slice_last_def [of _ "[]"] split: jsval.splits)

lemma pages_before_fetch_valid:
  assumes "P (body_text req) = Inr b" and "valid_request b"
    and "API_KEY_caffine e = Some key" and "key \<noteq> []"
  shows "pages_before_fetch P req e =
     Inr (pages_call key
       ((if truthy (persona_of b)
         then [text_turn ''user'' (persona_of b), text_turn ''model'' (JStr pages_ack)] else [])
        @ map forward (filter pages_shape_ok (slice_last 10 (history_of b)))
        @ [text_turn ''user'' (own_prop b ''message'')]))"
proof -
  have m: "truthy (own_prop b ''message'')" "is_string (own_prop b ''message'')"
    using assms(2) by (simp_all add: valid_request_def)
  show ?thesis
    unfolding pages_before_fetch_def
    by (simp add: assms valid_request_destructure m
        pages_contents_array [OF valid_request_history [OF assms(2)]])
qed

lemma worker_before_fetch_valid:
  assumes "P (body_text req) = Inr b" and "valid_request b"
    and "API_KEY_caffine e = Some key" and "key \<noteq> []"
  shows "worker_before_fetch P req e =
     Inr (Inr (worker_call key
       ([text_turn ''user'' (JStr BARISTA_PROMPT), text_turn ''model'' (JStr worker_ack)]
        @ map forward (filter worker_shape_ok (slice_last 10 (history_of b)))
        @ [text_turn ''user'' (own_prop b ''message'')])))"
  unfolding worker_before_fetch_def
  by (simp add: assms valid_request_destructure
      worker_contents_array [OF valid_request_history [OF assms(2)]])

lemma demo_hi_pages_call:
  "pages_before_fetch demo_parse (demo_post demo_hi_text) demo_env =
     Inr (pages_call ''k3y'' [text_turn ''user'' (JStr ''Hi'')])"
  by (simp add: demo_defs handler_defs)

lemma demo_hi_worker_call:
  "worker_before_fetch demo_parse (demo_post demo_hi_text) demo_env =
     Inr (Inr (worker_call ''k3y''
       [text_turn ''user'' (JStr BARISTA_PROMPT), text_turn ''model'' (JStr worker_ack),
        text_turn ''user'' (JStr ''Hi'')]))"
  by (simp add: demo_defs handler_defs)

text \<open>
  What both handlers send when the trailing window of the history has no
  \<open>null\<close> entry, with every turn and the outbound call written out.
\<close>

lemma payload_when_window_has_no_null:
  assumes "P (body_text req) = Inr b" and "\<not> nullish b"
    and "own_prop b ''message'' = JStr m" and "m \<noteq> []"
    and "default_to (own_prop b ''history'') (JArr []) = JArr h"
    and "no_null_entries (slice_last 10 h)"
    and "default_to (own_prop b ''systemPrompt'') (JStr []) = JStr sp"
    and "API_KEY_caffine e = Some key" and "key \<noteq> []"
  shows "snd (onRequestPost P up req e) =
           [\<lparr>url = api_url key, out_method = ''POST'',
             out_headers = [(''Content-Type'', ''application/json'')],
             out_body = JObj
               [(''contents'', JArr
                  ((if sp = [] then []
                    else [JObj [(''role'', JStr ''user''),
                                (''parts'', JArr [JObj [(''text'', JStr sp)]])],
                          JObj [(''role'', JStr ''model''),
                                (''parts'', JArr [JObj [(''text'', JStr pages_ack)]])]])
                   @ map (\<lambda>t. JObj [(''role'', own_prop t ''role''),
                                     (''parts'', own_prop t ''parts'')])
                       (filter (\<lambda>t. truthy (own_prop t ''role'') \<and> isArray (own_prop t ''parts''))
                          (slice_last 10 h))
                   @ [JObj [(''role'', JStr ''user''),
                            (''parts'', JArr [JObj [(''text'', JStr m)]])]])),
                (''generationConfig'', generationConfig),
                (''safetySettings'', safetySettings)]\<rparr>]
       \<and> (req_method req = ''POST'' \<longrightarrow>
          snd (worker_fetch P up req e) =
           [\<lparr>url = api_url key, out_method = ''POST'',
             out_headers = [(''Content-Type'', ''application/json'')],
             out_body = JObj
               [(''contents'', JArr
                  ([JObj [(''role'', JStr ''user''),
                          (''parts'', JArr [JObj [(''text'', JStr BARISTA_PROMPT)]])],
                    JObj [(''role'', JStr ''model''),
                          (''parts'', JArr [JObj [(''text'', JStr worker_ack)]])]]
                   @ map (\<lambda>t. JObj [(''role'', own_prop t ''role''),
                                     (''parts'', own_prop t ''parts'')])
                       (filter (\<lambda>t. truthy (own_prop t ''role'') \<and> truthy (own_prop t ''parts''))
                          (slice_last 10 h))
                   @ [JObj [(''role'', JStr ''user''),
                            (''parts'', JArr [JObj [(''text'', JStr m)]])]])),
                (''generationConfig'', generationConfig)]\<rparr>])"
proof -
  have d: "destructure b = Inr (JStr m, JArr h, JStr sp)"
    using assms(2,3,5,7) by (simp add: destructure_def)
  have f: "forward = (\<lambda>t. JObj [(''role'', own_prop t ''role''), (''parts'', own_prop t ''parts'')])"
      "pages_shape_ok = (\<lambda>t. truthy (own_prop t ''role'') \<and> isArray (own_prop t ''parts''))"
      "worker_shape_ok = (\<lambda>t. truthy (own_prop t ''role'') \<and> truthy (own_prop t ''parts''))"
    by (auto simp: forward_def turn_def pages_shape_ok_def worker_shape_ok_def)
  have p: "snd (onRequestPost P up req e) =
      [pages_call key
        ((if truthy (JStr sp)
          then [text_turn ''user'' (JStr sp), text_turn ''model'' (JStr pages_ack)] else [])
         @ map forward (filter pages_shape_ok (slice_last 10 h)) @ [text_turn ''user'' (JStr m)])]"
    by (simp add: onRequestPost_def pages_before_fetch_def assms(1,4,8,9) d
        pages_contents_array [OF assms(6)])
  have w: "snd (worker_fetch P up req e) =
      [worker_call key
        ([text_turn ''user'' (JStr BARISTA_PROMPT), text_turn ''model'' (JStr worker_ack)]
         @ map forward (filter worker_shape_ok (slice_last 10 h)) @ [text_turn ''user'' (JStr m)])]"
    if "req_method req = ''POST''"
    using that
    by (simp add: worker_fetch_def worker_before_fetch_def assms(1,8,9) d
        worker_contents_array [OF assms(6)] split: sum.splits)
  show ?thesis
    using p w unfolding f
    by (simp add: pages_call_def worker_call_def text_turn_def turn_def)
qed

section \<open>Properties of the relay\<close>

text \<open>
  C1. The payload is to be, in order, the persona pair, the entries among the
  last 10 of \<open>history\<close> that pass the shape test, and one final user turn
  with the message. A \<open>null\<close> entry does not pass the shape test, so for the
  request with the message \<open>Hi\<close>, a persona and the history
  \<open>[user turn, null, model turn]\<close> the payload would be the pair, the two
  turns and the final turn. Neither handler assembles it: the read of
  \<open>turn.role\<close> throws on the \<open>null\<close> entry, the Pages Function ends with
  that exception, the Worker answers 500, and no outbound call is made.
\<close>

theorem null_history_entry_fails:
  "onRequestPost (JSON_parse_on [(demo_null_turn_text, demo_null_turn_body)])
      (\<lambda>c. Resolved 200 demo_reply_text) (demo_post demo_null_turn_text) demo_env =
     (Inl (TypeError ''Cannot read property role''), [])
   \<and> worker_fetch (JSON_parse_on [(demo_null_turn_text, demo_null_turn_body)])
      (\<lambda>c. Resolved 200 demo_reply_text) (demo_post demo_null_turn_text) demo_env =
     (\<lparr>status = 500, headers = worker_headers,
       body = JsonBody (JObj [(''error'', JStr ''Cannot read property role'')])\<rparr>, [])"
  by (simp add: JSON_parse_on_def demo_post_def demo_env_def demo_null_turn_body_def
      demo_u_def demo_m_def handler_defs)

text \<open>
  C2, as stated, fails in two places. The Worker never tests \<open>message\<close>: for
  the body \<open>{}\<close> it calls upstream, with a final turn whose text is
  \<open>undefined\<close>, and answers 200. In the Pages Function the body \<open>null\<close>
  parses as JSON and has no message, yet the destructuring throws before the
  test of \<open>message\<close> is reached.
\<close>

theorem missing_message_counterexample:
  "worker_fetch demo_parse (\<lambda>c. Resolved 200 demo_reply_text) (demo_post ''{}'') demo_env =
     (\<lparr>status = 200, headers = worker_headers,
       body = JsonBody (JObj [(''reply'', JStr ''Hello'')])\<rparr>,
      [worker_call ''k3y''
        [text_turn ''user'' (JStr BARISTA_PROMPT), text_turn ''model'' (JStr worker_ack),
         text_turn ''user'' JUndefined]])
   \<and> onRequestPost demo_parse (\<lambda>c. Resolved 200 demo_reply_text) (demo_post ''null'') demo_env =
     (Inl (TypeError ''Cannot destructure property message''), [])"
  by (simp add: demo_defs handler_defs)

text \<open>
  C2 (amended). In the Pages Function, for every request whose body parses to a
  JSON value other than \<open>null\<close> and whose \<open>message\<close> is absent, empty, any
  other falsy value, or not a string, the response is HTTP 400 with the error
  \<open>Missing or invalid "message" field\<close> and no outbound call is made.
\<close>

theorem missing_message_rejected:
  assumes "P (body_text req) = Inr b" and "\<not> nullish b"
    and "\<not> truthy (own_prop b ''message'') \<or> \<not> is_string (own_prop b ''message'')"
  shows \<open>onRequestPost P up req e =
           (Inr \<lparr>status = 400, headers = corsHeaders,
                 body = JsonBody (JObj [(''error'', JStr ''Missing or invalid "message" field'')])\<rparr>,
            [])\<close>
  using assms
  by (auto simp: onRequestPost_def pages_before_fetch_def destructure_def json_response_def new_Response_def
      null_body_status_def)

text \<open>The property of C2 at a concrete request.\<close>

theorem missing_message_rejected_witness:
  \<open>demo_parse (body_text (demo_post ''{}'')) = Inr (JObj [])
   \<and> \<not> nullish (JObj [])
   \<and> \<not> truthy (own_prop (JObj []) ''message'')
   \<and> onRequestPost demo_parse (\<lambda>c. Resolved 200 demo_reply_text) (demo_post ''{}'') demo_env =
           (Inr \<lparr>status = 400, headers = corsHeaders,
                 body = JsonBody (JObj [(''error'', JStr ''Missing or invalid "message" field'')])\<rparr>,
            [])\<close>
proof -
  have p: "demo_parse (body_text (demo_post ''{}'')) = Inr (JObj [])"
    by (simp add: demo_defs)
  have n: "\<not> nullish (JObj [])"
    by simp
  have m: "\<not> truthy (own_prop (JObj []) ''message'') \<or> \<not> is_string (own_prop (JObj []) ''message'')"
    by simp
  show ?thesis
    using missing_message_rejected [where P = demo_parse and req = "demo_post ''{}''"
        and up = "\<lambda>c. Resolved 200 demo_reply_text" and e = demo_env, OF p n m] p
    by simp
qed

text \<open>
  C3, as stated, fails in the Worker: it does not look at the upstream status.
  An upstream 429 with a JSON error body is answered with HTTP 200 and the
  fallback reply, without a details field. It also cannot hold for every
  non-2xx status in the Pages Function: at an upstream 304 the response of
  line 97 is a null body status given with a body, and \<open>new Response\<close> throws.
\<close>

theorem upstream_status_counterexample:
  "fst (worker_fetch demo_parse (\<lambda>c. Resolved 429 demo_quota_text) (demo_post demo_hi_text) demo_env) =
     \<lparr>status = 200, headers = worker_headers,
      body = JsonBody (JObj [(''reply'', JStr worker_fallback)])\<rparr>
   \<and> fst (onRequestPost demo_parse (\<lambda>c. Resolved 304 []) (demo_post demo_hi_text) demo_env) =
     Inl (TypeError ''null body status with a body'')"
  by (simp add: demo_defs handler_defs)

text \<open>
  C3 (amended). In the Pages Function, for every upstream response with a
  status from 300 to 599 other than 304, the response carries that same status,
  the error \<open>Gemini API error\<close>, the status again as a field, and a details
  field that is the upstream body parsed as JSON, or \<open>{ raw: text }\<close> when the
  body is not JSON; the one outbound call is the only one.
\<close>

theorem upstream_error_surfaced:
  assumes "pages_before_fetch P req e = Inr call" and "up call = Resolved st rtext"
    and "300 \<le> st" and "st \<le> 599" and "st \<noteq> 304"
  shows "onRequestPost P up req e =
           (Inr \<lparr>status = st, headers = corsHeaders,
                 body = JsonBody (JObj [(''error'', JStr ''Gemini API error''),
                                        (''status'', JNum (of_nat st)),
                                        (''details'', (case P rtext of
                                                         Inl m \<Rightarrow> JObj [(''raw'', JStr rtext)]
                                                       | Inr v \<Rightarrow> v))])\<rparr>,
            [call])"
  using assms
  by (simp add: onRequestPost_def pages_after_fetch_def json_response_def new_Response_def
      null_body_status_def ok_def)

text \<open>The property of C3 at a concrete request.\<close>

theorem upstream_error_surfaced_witness:
  "pages_before_fetch demo_parse (demo_post demo_hi_text) demo_env =
     Inr (pages_call ''k3y'' [text_turn ''user'' (JStr ''Hi'')])
   \<and> (300::nat) \<le> 429 \<and> (429::nat) \<le> 599 \<and> (429::nat) \<noteq> 304
   \<and> (300::nat) \<le> 503 \<and> (503::nat) \<le> 599 \<and> (503::nat) \<noteq> 304
   \<and> onRequestPost demo_parse (\<lambda>c. Resolved 429 demo_quota_text) (demo_post demo_hi_text) demo_env =
           (Inr \<lparr>status = 429, headers = corsHeaders,
                 body = JsonBody (JObj [(''error'', JStr ''Gemini API error''),
                                        (''status'', JNum 429),
                                        (''details'', demo_quota_data)])\<rparr>,
            [pages_call ''k3y'' [text_turn ''user'' (JStr ''Hi'')]])
   \<and> onRequestPost demo_parse (\<lambda>c. Resolved 503 ''Service Unavailable'') (demo_post demo_hi_text) demo_env =
           (Inr \<lparr>status = 503, headers = corsHeaders,
                 body = JsonBody (JObj [(''error'', JStr ''Gemini API error''),
                                        (''status'', JNum 503),
                                        (''details'', JObj [(''raw'', JStr ''Service Unavailable'')])])\<rparr>,
            [pages_call ''k3y'' [text_turn ''user'' (JStr ''Hi'')]])"
proof -
  have q: "demo_parse demo_quota_text = Inr demo_quota_data"
      "demo_parse ''Service Unavailable'' = Inl ''Unexpected token''"
    by (simp_all add: demo_defs)
  have a: "(300::nat) \<le> 429" "(429::nat) \<le> 599" "(429::nat) \<noteq> 304"
    by simp_all
  have b: "(300::nat) \<le> 503" "(503::nat) \<le> 599" "(503::nat) \<noteq> 304"
    by simp_all
  show ?thesis
    using upstream_error_surfaced [where up = "\<lambda>c. Resolved 429 demo_quota_text",
            OF demo_hi_pages_call refl a]
          upstream_error_surfaced [where up = "\<lambda>c. Resolved 503 ''Service Unavailable''",
            OF demo_hi_pages_call refl b]
          demo_hi_pages_call
    by (simp add: q)
qed

text \<open>
  C4, as stated, fails in the Worker: its preflight response is built without a
  status, so it is 200 and not 204.
\<close>

theorem worker_preflight_status_counterexample:
  "status (fst (worker_fetch demo_parse (\<lambda>c. Rejected ''offline'')
      \<lparr>req_method = ''OPTIONS'', body_text = []\<rparr> demo_env)) = 200
   \<and> status (fst (worker_fetch demo_parse (\<lambda>c. Rejected ''offline'')
      \<lparr>req_method = ''OPTIONS'', body_text = []\<rparr> demo_env)) \<noteq> 204"
  by (simp add: worker_fetch_def)

text \<open>
  C4 (amended). Every \<open>OPTIONS\<close> request, whatever else it holds, is answered
  with exactly the three CORS headers, no body and no outbound call; the status
  is 204 in the Pages Function and 200 in the Worker.
\<close>

theorem preflight_response:
  "onRequestOptions =
     \<lparr>status = 204,
      headers = [(''Access-Control-Allow-Origin'', ''*''),
                 (''Access-Control-Allow-Methods'', ''POST, OPTIONS''),
                 (''Access-Control-Allow-Headers'', ''Content-Type'')],
      body = NoBody\<rparr>
   \<and> (req_method req = ''OPTIONS'' \<longrightarrow>
        worker_fetch P up req e =
          (\<lparr>status = 200,
            headers = [(''Access-Control-Allow-Origin'', ''*''),
                       (''Access-Control-Allow-Methods'', ''POST, OPTIONS''),
                       (''Access-Control-Allow-Headers'', ''Content-Type'')],
            body = NoBody\<rparr>, []))"
  by (simp add: onRequestOptions_def worker_fetch_def)

text \<open>The property of C4 at a concrete request.\<close>

theorem preflight_response_witness:
  "req_method \<lparr>req_method = ''OPTIONS'', body_text = demo_hi_text\<rparr> = ''OPTIONS''
   \<and> worker_fetch demo_parse (\<lambda>c. Resolved 200 demo_reply_text)
        \<lparr>req_method = ''OPTIONS'', body_text = demo_hi_text\<rparr> demo_env =
          (\<lparr>status = 200,
            headers = [(''Access-Control-Allow-Origin'', ''*''),
                       (''Access-Control-Allow-Methods'', ''POST, OPTIONS''),
                       (''Access-Control-Allow-Headers'', ''Content-Type'')],
            body = NoBody\<rparr>, [])"
  using preflight_response [of "\<lparr>req_method = ''OPTIONS'', body_text = demo_hi_text\<rparr>"
      demo_parse "\<lambda>c. Resolved 200 demo_reply_text" demo_env]
  by simp

text \<open>
  C5, as stated, fails in two ways. A \<open>null\<close> entry in the window makes the
  read of \<open>turn.role\<close> throw: the Pages Function fails with the exception and
  the Worker answers 500. And an entry that has both a role and parts is not
  always forwarded: the Pages Function leaves out an entry whose \<open>parts\<close> is
  not an array.
\<close>

theorem malformed_turn_counterexample:
  "fst (onRequestPost demo_parse (\<lambda>c. Resolved 200 demo_reply_text)
         (demo_post demo_null_history_text) demo_env) =
     Inl (TypeError ''Cannot read property role'')
   \<and> status (fst (worker_fetch demo_parse (\<lambda>c. Resolved 200 demo_reply_text)
         (demo_post demo_null_history_text) demo_env)) = 500
   \<and> snd (onRequestPost demo_parse (\<lambda>c. Resolved 200 demo_reply_text)
         (demo_post demo_string_parts_text) demo_env) =
       [pages_call ''k3y'' [text_turn ''user'' (JStr ''Hi'')]]"
  by (simp add: demo_defs handler_defs)

text \<open>
  C5 (amended). For every history array whose trailing 10-element window has no
  \<open>null\<close> entry, building the payload does not fail, and the entries of the
  window that are forwarded, each as its role and parts and in their order, are
  exactly those with a truthy \<open>role\<close> and, in the Pages Function, an array as
  \<open>parts\<close>, in the Worker, a truthy \<open>parts\<close>. In particular an entry of the
  window without a role or without parts (any number, string, boolean or array
  among them) is left out by both.
\<close>

theorem malformed_turns_dropped:
  assumes "no_null_entries (slice_last 10 h)"
  shows "pages_contents m (JArr h) sp =
           Inr ((if truthy sp
                 then [text_turn ''user'' sp, text_turn ''model'' (JStr pages_ack)] else [])
                @ map forward (filter pages_shape_ok (slice_last 10 h))
                @ [text_turn ''user'' m])
       \<and> worker_contents m (JArr h) =
           Inr ([text_turn ''user'' (JStr BARISTA_PROMPT), text_turn ''model'' (JStr worker_ack)]
                @ map forward (filter worker_shape_ok (slice_last 10 h))
                @ [text_turn ''user'' m])
       \<and> (\<forall>t \<in> set (slice_last 10 h).
            own_prop t ''role'' = JUndefined \<or> own_prop t ''parts'' = JUndefined \<longrightarrow>
            \<not> pages_shape_ok t \<and> \<not> worker_shape_ok t)"
  using pages_contents_array [OF assms] worker_contents_array [OF assms]
  by (auto simp: pages_shape_ok_def worker_shape_ok_def)

text \<open>The property of C5 at a concrete request.\<close>

theorem malformed_turns_dropped_witness:
  "no_null_entries (slice_last 10 [demo_u, JNum 7, demo_x, JStr ''user'', demo_m])
   \<and> pages_contents (JStr ''Hi'') (JArr [demo_u, JNum 7, demo_x, JStr ''user'', demo_m]) (JStr []) =
       Inr [turn (JStr ''user'') (JArr []), turn (JStr ''model'') (JArr []),
            text_turn ''user'' (JStr ''Hi'')]
   \<and> own_prop demo_x ''parts'' = JUndefined \<and> demo_x \<in> set (slice_last 10 [demo_u, JNum 7, demo_x, JStr ''user'', demo_m])
   \<and> \<not> pages_shape_ok demo_x \<and> \<not> worker_shape_ok demo_x"
proof -
  have n: "no_null_entries (slice_last 10 [demo_u, JNum 7, demo_x, JStr ''user'', demo_m])"
    by (simp add: no_null_entries_def slice_last_def demo_u_def demo_x_def demo_m_def)
  have s: "slice_last 10 [demo_u, JNum 7, demo_x, JStr ''user'', demo_m] =
      [demo_u, JNum 7, demo_x, JStr ''user'', demo_m]"
    by (simp add: slice_last_def)
  have f: "map forward (filter pages_shape_ok [demo_u, JNum 7, demo_x, JStr ''user'', demo_m]) =
      [turn (JStr ''user'') (JArr []), turn (JStr ''model'') (JArr [])]"
    by (simp add: pages_shape_ok_def forward_def demo_u_def demo_x_def demo_m_def)
  have x: "own_prop demo_x ''parts'' = JUndefined"
    by (simp add: demo_x_def)
  show ?thesis
    using malformed_turns_dropped [OF n, of "JStr ''Hi''" "JStr []"] n x
    unfolding s f
    by (simp add: pages_shape_ok_def worker_shape_ok_def demo_x_def)
qed

text \<open>
  C6, as stated, fails for a finish reason that is present but falsy: with the
  candidate's \<open>finishReason\<close> equal to the empty string the field of the
  response is \<open>"UNKNOWN"\<close>, not that string.
\<close>

theorem finish_reason_counterexample:
  "opt_prop (candidate_of demo_empty_reason_data) ''finishReason'' = JStr []
   \<and> fst (onRequestPost demo_parse (\<lambda>c. Resolved 200 demo_empty_reason_text)
        (demo_post demo_hi_text) demo_env) =
       Inr \<lparr>status = 502, headers = corsHeaders,
            body = JsonBody (JObj [(''error'', JStr ''No reply from Gemini''),
                                   (''finishReason'', JStr ''UNKNOWN'')])\<rparr>"
  by (simp add: demo_defs handler_defs)

text \<open>
  C6 (amended). In the Pages Function, for every upstream 2xx response whose body
  parses as JSON and whose first candidate's first part has no truthy text, the
  response is HTTP 502 with the error \<open>No reply from Gemini\<close> and a
  \<open>finishReason\<close> field equal to the candidate's \<open>finishReason\<close> when that is
  truthy, and to \<open>"UNKNOWN"\<close> when it is absent or falsy (\<open>null\<close>,
  \<open>false\<close>, 0, the empty string).
\<close>

theorem no_reply_finish_reason:
  assumes "pages_before_fetch P req e = Inr call" and "up call = Resolved st rtext" and "ok st"
    and "P rtext = Inr geminiData" and "\<not> truthy (reply_of (candidate_of geminiData))"
  shows "onRequestPost P up req e =
           (Inr \<lparr>status = 502, headers = corsHeaders,
                 body = JsonBody (JObj [(''error'', JStr ''No reply from Gemini''),
                   (''finishReason'',
                    if truthy (opt_prop (candidate_of geminiData) ''finishReason'')
                    then opt_prop (candidate_of geminiData) ''finishReason''
                    else JStr ''UNKNOWN'')])\<rparr>,
            [call])"
  using assms
  by (simp add: onRequestPost_def pages_after_fetch_def json_response_def new_Response_def
      null_body_status_def)

text \<open>The property of C6 at a concrete request.\<close>

theorem no_reply_finish_reason_witness:
  "pages_before_fetch demo_parse (demo_post demo_hi_text) demo_env =
     Inr (pages_call ''k3y'' [text_turn ''user'' (JStr ''Hi'')])
   \<and> ok 200
   \<and> demo_parse demo_safety_text = Inr demo_safety_data
   \<and> \<not> truthy (reply_of (candidate_of demo_safety_data))
   \<and> onRequestPost demo_parse (\<lambda>c. Resolved 200 demo_safety_text) (demo_post demo_hi_text) demo_env =
           (Inr \<lparr>status = 502, headers = corsHeaders,
                 body = JsonBody (JObj [(''error'', JStr ''No reply from Gemini''),
                                        (''finishReason'', JStr ''SAFETY'')])\<rparr>,
            [pages_call ''k3y'' [text_turn ''user'' (JStr ''Hi'')]])
   \<and> demo_parse ''{}'' = Inr (JObj [])
   \<and> \<not> truthy (reply_of (candidate_of (JObj [])))
   \<and> onRequestPost demo_parse (\<lambda>c. Resolved 200 ''{}'') (demo_post demo_hi_text) demo_env =
           (Inr \<lparr>status = 502, headers = corsHeaders,
                 body = JsonBody (JObj [(''error'', JStr ''No reply from Gemini''),
                                        (''finishReason'', JStr ''UNKNOWN'')])\<rparr>,
            [pages_call ''k3y'' [text_turn ''user'' (JStr ''Hi'')]])"
proof -
  have o: "ok 200"
    by (simp add: ok_def)
  have p: "demo_parse demo_safety_text = Inr demo_safety_data" "demo_parse ''{}'' = Inr (JObj [])"
    by (simp_all add: demo_defs)
  have r: "\<not> truthy (reply_of (candidate_of demo_safety_data))"
      "\<not> truthy (reply_of (candidate_of (JObj [])))"
    by (simp_all add: reply_of_def candidate_of_def opt_prop_def demo_safety_data_def)
  have f: "opt_prop (candidate_of demo_safety_data) ''finishReason'' = JStr ''SAFETY''"
      "opt_prop (candidate_of (JObj [])) ''finishReason'' = JUndefined"
    by (simp_all add: candidate_of_def opt_prop_def demo_safety_data_def)
  show ?thesis
    using no_reply_finish_reason [where up = "\<lambda>c. Resolved 200 demo_safety_text",
            OF demo_hi_pages_call refl o p(1) r(1)]
          no_reply_finish_reason [where up = "\<lambda>c. Resolved 200 ''{}''",
            OF demo_hi_pages_call refl o p(2) r(2)]
          demo_hi_pages_call o p r
    by (simp add: f)
qed

text \<open>
  C7, as stated, fails in the Pages Function: an absent \<open>systemPrompt\<close>
  defaults to the empty string, the persona pair is guarded by
  \<open>if (systemPrompt)\<close>, and the payload is the user turn alone.
\<close>

theorem default_persona_counterexample:
  "valid_request demo_hi_body
   \<and> own_prop demo_hi_body ''systemPrompt'' = JUndefined
   \<and> snd (onRequestPost demo_parse (\<lambda>c. Resolved 200 demo_reply_text) (demo_post demo_hi_text) demo_env) =
       [pages_call ''k3y'' [text_turn ''user'' (JStr ''Hi'')]]"
  by (simp add: demo_defs handler_defs valid_request_def)

text \<open>
  C7 (amended). For every valid request with the key configured: the Worker's
  payload begins with the persona pair built from its fixed barista prompt,
  whether \<open>systemPrompt\<close> is absent or given; the Pages Function has no
  default persona, and when \<open>systemPrompt\<close> is absent its payload has no
  persona pair: it is the filtered history followed by the user turn.
\<close>

theorem absent_system_prompt:
  assumes "P (body_text req) = Inr b" and "valid_request b"
    and "API_KEY_caffine e = Some key" and "key \<noteq> []"
  shows "(own_prop b ''systemPrompt'' = JUndefined \<longrightarrow>
          snd (onRequestPost P up req e) =
            [pages_call key
              (map forward (filter pages_shape_ok (slice_last 10 (history_of b)))
               @ [text_turn ''user'' (own_prop b ''message'')])])
       \<and> (req_method req = ''POST'' \<longrightarrow>
          snd (worker_fetch P up req e) =
            [worker_call key
              (text_turn ''user'' (JStr BARISTA_PROMPT) # text_turn ''model'' (JStr worker_ack)
               # map forward (filter worker_shape_ok (slice_last 10 (history_of b)))
               @ [text_turn ''user'' (own_prop b ''message'')])])"
proof -
  have "persona_of b = JStr []" if "own_prop b ''systemPrompt'' = JUndefined"
    using that by (simp add: persona_of_def default_to_def)
  then show ?thesis
    unfolding onRequestPost_def worker_fetch_def
      pages_before_fetch_valid [where P = P and req = req, OF assms]
      worker_before_fetch_valid [where P = P and req = req, OF assms]
    by (simp split: sum.splits)
qed

text \<open>The property of C7 at a concrete request.\<close>

theorem absent_system_prompt_witness:
  "demo_parse (body_text (demo_post demo_hi_text)) = Inr demo_hi_body
   \<and> valid_request demo_hi_body
   \<and> own_prop demo_hi_body ''systemPrompt'' = JUndefined
   \<and> req_method (demo_post demo_hi_text) = ''POST''
   \<and> snd (onRequestPost demo_parse (\<lambda>c. Rejected ''offline'') (demo_post demo_hi_text) demo_env) =
       [pages_call ''k3y'' [text_turn ''user'' (JStr ''Hi'')]]
   \<and> snd (worker_fetch demo_parse (\<lambda>c. Rejected ''offline'') (demo_post demo_hi_text) demo_env) =
       [worker_call ''k3y''
         [text_turn ''user'' (JStr BARISTA_PROMPT), text_turn ''model'' (JStr worker_ack),
          text_turn ''user'' (JStr ''Hi'')]]"
proof -
  have p: "demo_parse (body_text (demo_post demo_hi_text)) = Inr demo_hi_body"
    by (simp add: demo_defs)
  have v: "valid_request demo_hi_body"
    by (simp add: valid_request_def demo_hi_body_def)
  have k: "API_KEY_caffine demo_env = Some ''k3y''" "''k3y'' \<noteq> []"
    by (simp_all add: demo_env_def)
  have s: "own_prop demo_hi_body ''systemPrompt'' = JUndefined"
      "own_prop demo_hi_body ''message'' = JStr ''Hi''"
      "history_of demo_hi_body = []"
      "req_method (demo_post demo_hi_text) = ''POST''"
    by (simp_all add: demo_hi_body_def history_of_def demo_post_def)
  show ?thesis
    using absent_system_prompt [where P = demo_parse and req = "demo_post demo_hi_text"
            and up = "\<lambda>c. Rejected ''offline''", OF p v k] p v s
    by (simp add: slice_last_def)
qed

text \<open>
  C8, as stated, fails in the Worker: the parser's exception reaches the
  \<open>catch\<close> block, which answers 500 with the exception's message.
\<close>

theorem worker_invalid_body_counterexample:
  "worker_fetch demo_parse (\<lambda>c. Resolved 200 demo_reply_text) (demo_post ''{message:'') demo_env =
     (\<lparr>status = 500, headers = worker_headers,
       body = JsonBody (JObj [(''error'', JStr ''Unexpected token'')])\<rparr>, [])"
  by (simp add: demo_defs handler_defs)

text \<open>
  C8 (amended). For every POST request whose body is not valid JSON, no outbound
  call is made; the Pages Function answers HTTP 400 with the error
  \<open>Invalid JSON body\<close>, the Worker answers HTTP 500 with the parser's message
  as the error.
\<close>

theorem invalid_body_rejected:
  assumes "P (body_text req) = Inl m"
  shows "onRequestPost P up req e =
           (Inr \<lparr>status = 400, headers = corsHeaders,
                 body = JsonBody (JObj [(''error'', JStr ''Invalid JSON body'')])\<rparr>, [])
       \<and> (req_method req = ''POST'' \<longrightarrow>
          worker_fetch P up req e =
            (\<lparr>status = 500, headers = worker_headers,
              body = JsonBody (JObj [(''error'', JStr m)])\<rparr>, []))"
  using assms
  by (simp add: onRequestPost_def pages_before_fetch_def json_response_def new_Response_def
      null_body_status_def
      worker_fetch_def worker_before_fetch_def worker_catch_def)

text \<open>The property of C8 at a concrete request.\<close>

theorem invalid_body_rejected_witness:
  "demo_parse (body_text (demo_post ''{message:'')) = Inl ''Unexpected token''
   \<and> onRequestPost demo_parse (\<lambda>c. Resolved 200 demo_reply_text) (demo_post ''{message:'') demo_env =
           (Inr \<lparr>status = 400, headers = corsHeaders,
                 body = JsonBody (JObj [(''error'', JStr ''Invalid JSON body'')])\<rparr>, [])
   \<and> worker_fetch demo_parse (\<lambda>c. Resolved 200 demo_reply_text) (demo_post ''{message:'') demo_env =
            (\<lparr>status = 500, headers = worker_headers,
              body = JsonBody (JObj [(''error'', JStr ''Unexpected token'')])\<rparr>, [])"
proof -
  have p: "demo_parse (body_text (demo_post ''{message:'')) = Inl ''Unexpected token''"
    by (simp add: demo_defs)
  have m: "req_method (demo_post ''{message:'') = ''POST''"
    by (simp add: demo_post_def)
  show ?thesis
    using invalid_body_rejected [where P = demo_parse and req = "demo_post ''{message:''"
        and up = "\<lambda>c. Resolved 200 demo_reply_text" and e = demo_env, OF p] p m
    by simp
qed

text \<open>
  C9, as stated, fails in the Worker when upstream cannot be reached: the
  rejected \<open>fetch\<close> lands in the \<open>catch\<close> block, which answers 500.
\<close>

theorem worker_masking_counterexample:
  "fst (worker_fetch demo_parse (\<lambda>c. Rejected ''offline'') (demo_post demo_hi_text) demo_env) =
     \<lparr>status = 500, headers = worker_headers,
      body = JsonBody (JObj [(''error'', JStr ''offline'')])\<rparr>"
  by (simp add: demo_defs handler_defs)

text \<open>
  C9 (amended). In the Worker, once the outbound call is made: when upstream
  answers, with any status, a body that parses to a JSON value other than
  \<open>null\<close> without a truthy first-candidate first-part text, the response is
  HTTP 200 with the fixed fallback string as the reply; when upstream cannot be
  reached, or its body is not JSON, the response is HTTP 500 with the
  exception's message as the error.
\<close>

theorem worker_failure_responses:
  assumes "req_method req = ''POST''" and "worker_before_fetch P req e = Inr (Inr call)"
  shows "(up call = Resolved st rtext \<and> P rtext = Inr data \<and> \<not> nullish data
            \<and> \<not> truthy (reply_of (opt_index0 (own_prop data ''candidates''))) \<longrightarrow>
          worker_fetch P up req e =
            (\<lparr>status = 200, headers = worker_headers,
              body = JsonBody (JObj [(''reply'', JStr worker_fallback)])\<rparr>, [call]))
       \<and> (up call = Rejected msg \<longrightarrow>
          worker_fetch P up req e =
            (\<lparr>status = 500, headers = worker_headers,
              body = JsonBody (JObj [(''error'', JStr msg)])\<rparr>, [call]))
       \<and> (up call = Resolved st rtext \<and> P rtext = Inl m \<longrightarrow>
          worker_fetch P up req e =
            (\<lparr>status = 500, headers = worker_headers,
              body = JsonBody (JObj [(''error'', JStr m)])\<rparr>, [call]))"
  using assms
  by (simp add: worker_fetch_def worker_after_fetch_def worker_catch_def get_prop_def)

text \<open>The property of C9 at a concrete request.\<close>

theorem worker_failure_responses_witness:
  "req_method (demo_post demo_hi_text) = ''POST''
   \<and> worker_before_fetch demo_parse (demo_post demo_hi_text) demo_env =
       Inr (Inr (worker_call ''k3y''
         [text_turn ''user'' (JStr BARISTA_PROMPT), text_turn ''model'' (JStr worker_ack),
          text_turn ''user'' (JStr ''Hi'')]))
   \<and> demo_parse demo_quota_text = Inr demo_quota_data \<and> \<not> nullish demo_quota_data
   \<and> \<not> truthy (reply_of (opt_index0 (own_prop demo_quota_data ''candidates'')))
   \<and> fst (worker_fetch demo_parse (\<lambda>c. Resolved 429 demo_quota_text) (demo_post demo_hi_text) demo_env) =
       \<lparr>status = 200, headers = worker_headers,
        body = JsonBody (JObj [(''reply'', JStr worker_fallback)])\<rparr>
   \<and> fst (worker_fetch demo_parse (\<lambda>c. Rejected ''offline'') (demo_post demo_hi_text) demo_env) =
       \<lparr>status = 500, headers = worker_headers,
        body = JsonBody (JObj [(''error'', JStr ''offline'')])\<rparr>
   \<and> demo_parse ''Service Unavailable'' = Inl ''Unexpected token''
   \<and> fst (worker_fetch demo_parse (\<lambda>c. Resolved 503 ''Service Unavailable'') (demo_post demo_hi_text) demo_env) =
       \<lparr>status = 500, headers = worker_headers,
        body = JsonBody (JObj [(''error'', JStr ''Unexpected token'')])\<rparr>"
proof -
  have m: "req_method (demo_post demo_hi_text) = ''POST''"
    by (simp add: demo_post_def)
  have p: "demo_parse demo_quota_text = Inr demo_quota_data"
      "demo_parse ''Service Unavailable'' = Inl ''Unexpected token''"
    by (simp_all add: demo_defs)
  have d: "\<not> nullish demo_quota_data"
      "\<not> truthy (reply_of (opt_index0 (own_prop demo_quota_data ''candidates'')))"
    by (simp_all add: demo_quota_data_def reply_of_def opt_prop_def)
  show ?thesis
    using worker_failure_responses [where up = "\<lambda>c. Resolved 429 demo_quota_text"
            and st = "429" and rtext = "demo_quota_text" and data = "demo_quota_data",
            OF m demo_hi_worker_call]
          worker_failure_responses [where up = "\<lambda>c. Rejected ''offline''" and msg = "''offline''",
            OF m demo_hi_worker_call]
          worker_failure_responses [where up = "\<lambda>c. Resolved 503 ''Service Unavailable''"
            and st = "503" and rtext = "''Service Unavailable''" and m = "''Unexpected token''",
            OF m demo_hi_worker_call]
          m demo_hi_worker_call p d
    by simp
qed

text \<open>
  C10. The value of the key reaches nothing but the URL of the outbound call.
  For every request, every parser and every upstream outcome, two configured
  (non-empty) keys give the same outcome of the handler, response body included,
  and the same outbound calls up to their URL, which is the fixed endpoint
  followed by the key. This holds for the Pages Function and for the Worker.
\<close>

theorem api_key_confined:
  assumes "k1 \<noteq> []" and "k2 \<noteq> []"
  shows "fst (onRequestPost P (\<lambda>c. r) req \<lparr>API_KEY_caffine = Some k1\<rparr>) =
         fst (onRequestPost P (\<lambda>c. r) req \<lparr>API_KEY_caffine = Some k2\<rparr>)
       \<and> fst (worker_fetch P (\<lambda>c. r) req \<lparr>API_KEY_caffine = Some k1\<rparr>) =
         fst (worker_fetch P (\<lambda>c. r) req \<lparr>API_KEY_caffine = Some k2\<rparr>)
       \<and> snd (onRequestPost P up req \<lparr>API_KEY_caffine = Some k1\<rparr>) =
         map (\<lambda>c. c\<lparr>url := api_url k1\<rparr>) (snd (onRequestPost P up' req \<lparr>API_KEY_caffine = Some k2\<rparr>))
       \<and> snd (worker_fetch P up req \<lparr>API_KEY_caffine = Some k1\<rparr>) =
         map (\<lambda>c. c\<lparr>url := api_url k1\<rparr>) (snd (worker_fetch P up' req \<lparr>API_KEY_caffine = Some k2\<rparr>))"
  using assms
  by (auto simp: onRequestPost_def pages_before_fetch_def worker_fetch_def worker_before_fetch_def
      pages_call_def worker_call_def split: sum.splits prod.splits)

text \<open>The property of C10 at a concrete request.\<close>

theorem api_key_confined_witness:
  "''k3y'' \<noteq> [] \<and> ''s3cret'' \<noteq> []
   \<and> fst (onRequestPost demo_parse (\<lambda>c. Resolved 200 demo_reply_text) (demo_post demo_hi_text)
            \<lparr>API_KEY_caffine = Some ''k3y''\<rparr>) =
       Inr \<lparr>status = 200, headers = corsHeaders,
            body = JsonBody (JObj [(''reply'', JStr ''Hello'')])\<rparr>
   \<and> fst (onRequestPost demo_parse (\<lambda>c. Resolved 200 demo_reply_text) (demo_post demo_hi_text)
            \<lparr>API_KEY_caffine = Some ''s3cret''\<rparr>) =
       Inr \<lparr>status = 200, headers = corsHeaders,
            body = JsonBody (JObj [(''reply'', JStr ''Hello'')])\<rparr>
   \<and> map url (snd (onRequestPost demo_parse (\<lambda>c. Resolved 200 demo_reply_text)
            (demo_post demo_hi_text) \<lparr>API_KEY_caffine = Some ''k3y''\<rparr>)) = [api_url ''k3y'']
   \<and> map url (snd (worker_fetch demo_parse (\<lambda>c. Resolved 200 demo_reply_text)
            (demo_post demo_hi_text) \<lparr>API_KEY_caffine = Some ''k3y''\<rparr>)) = [api_url ''k3y'']"
proof -
  have k: "''k3y'' \<noteq> []" "''s3cret'' \<noteq> []"
    by simp_all
  have a: "fst (onRequestPost demo_parse (\<lambda>c. Resolved 200 demo_reply_text) (demo_post demo_hi_text)
            \<lparr>API_KEY_caffine = Some ''s3cret''\<rparr>) =
       Inr \<lparr>status = 200, headers = corsHeaders,
            body = JsonBody (JObj [(''reply'', JStr ''Hello'')])\<rparr>"
    by (simp add: demo_defs handler_defs)
  have b: "snd (onRequestPost demo_parse (\<lambda>c. Resolved 200 demo_reply_text) (demo_post demo_hi_text)
            \<lparr>API_KEY_caffine = Some ''s3cret''\<rparr>) =
       [pages_call ''s3cret'' [text_turn ''user'' (JStr ''Hi'')]]"
    by (simp add: demo_defs handler_defs)
  have c: "snd (worker_fetch demo_parse (\<lambda>c. Resolved 200 demo_reply_text) (demo_post demo_hi_text)
            \<lparr>API_KEY_caffine = Some ''s3cret''\<rparr>) =
       [worker_call ''s3cret''
         [text_turn ''user'' (JStr BARISTA_PROMPT), text_turn ''model'' (JStr worker_ack),
          text_turn ''user'' (JStr ''Hi'')]]"
    by (simp add: demo_defs handler_defs)
  show ?thesis
    using api_key_confined [OF k, where P = demo_parse and r = "Resolved 200 demo_reply_text"
        and req = "demo_post demo_hi_text" and up = "\<lambda>c. Resolved 200 demo_reply_text"
        and up' = "\<lambda>c. Resolved 200 demo_reply_text"]
    unfolding a b c by simp
qed

end
